theory Spec2Isabelle
  imports Complex_Main
begin

section \<open>Data model\<close>

text \<open>
  The wallet front end consists of two React components: \<open>TokenList\<close>
  (token-list.tsx) and \<open>TransferForm\<close> (the transfer form). Both read the balance
  store through the hook \<open>useTokenBalance\<close>, which yields \<open>balances\<close> and a loading
  flag. Rendering is modelled as a pure function from the hook values to a view model; the
  markup (class names, icons, layout) is left out.
\<close>

text \<open>
  Failures: the run-time \<open>TypeError\<close> of JavaScript (a property read on
  \<open>undefined\<close>) and the error kinds of the specification's taxonomy that local
  code can produce.
\<close>

datatype error = TypeError | InvalidAmount | InvalidRecipient | InsufficientBalance

text \<open>
  Modelled from the spec: the \<open>Amount\<close> type of the ledger library (\<open>@chromia/ft4\<close>, not
  part of the sources). An amount holds the integer raw ledger units (the spec's
  \<open>rawAmount\<close>, a bigint) together with the number of decimals it is scaled by.
\<close>

record Amount =
  rawAmount :: int
  amount_decimals :: nat

record Asset =
  symbol :: "string option"
  decimals :: nat
  iconUrl :: string

text \<open>
  A balance as the components use it: \<open>balance.asset\<close> (read with optional chaining in
  the transfer form, hence an option) and \<open>balance.amount\<close>.
\<close>

record Balance =
  asset :: "Asset option"
  amount :: Amount

subsection \<open>AmountConverter\<close>

text \<open>
  Modelled from the spec: AmountConverter (section 4.1), whose implementation is the ledger
  library and is not part of the sources. \<open>toDecimal rawAmount d\<close> is
  \<open>rawAmount / 10^d\<close>; \<open>toRaw x d\<close> is the integer \<open>x * 10^d\<close> and fails with
  \<open>InvalidAmount\<close> when \<open>x\<close> is negative or has more than \<open>d\<close> fractional digits.
  Decimal values are exact rationals: the spec demands integer or string arithmetic, never
  binary floating point.
\<close>

definition toDecimal :: "int \<Rightarrow> nat \<Rightarrow> rat" where
  "toDecimal raw d = of_int raw / 10 ^ d"

definition toRaw :: "rat \<Rightarrow> nat \<Rightarrow> error + int" where
  "toRaw x d =
     (let y = x * 10 ^ d
      in if x < 0 \<or> of_int \<lfloor>y\<rfloor> \<noteq> y then Inl InvalidAmount else Inr \<lfloor>y\<rfloor>)"

text \<open>
  Modelled from the spec: the two library calls the components make.
  \<open>amount.toString()\<close> renders the decimal value of an amount (\<open>toDecimal\<close>);
  \<open>convertToRawAmount(s, decimals)\<close> turns a decimal value into raw units (\<open>toRaw\<close>).
\<close>

definition Amount_toString :: "Amount \<Rightarrow> rat" where
  "Amount_toString a = toDecimal (rawAmount a) (amount_decimals a)"

definition convertToRawAmount :: "rat \<Rightarrow> nat \<Rightarrow> error + int" where
  "convertToRawAmount s d = toRaw s d"

section \<open>TokenList\<close>

text \<open>
  token-list.tsx, lines 24-27 and 32-44:
  \<^verbatim>\<open>
  const showCompact = compact && !fullList;
  const displayBalances = showCompact ? balances.slice(0, 3) : balances;
  const hasMore = showCompact && balances.length > 1;
  ...
  {!fullList && (<h3>Your Assets{balances.length ? ` (${balances.length})` : ''}</h3>)}
  {showCompact && hasMore && (<button onClick={onViewAll}>View all</button>)}
  ...
  {displayBalances.length > 0 ? (rows) : (Nothing found)}
  \<close>
  \<open>slice(0, 3)\<close> is \<open>take 3\<close>. The view model keeps what the markup depends on: the rows
  shown, the \<open>hasMore\<close> flag, whether the heading is rendered and with which count,
  whether the "View all" button is rendered, and whether the list is replaced by the
  "Nothing found" panel. The loading indicator, which depends on nothing but the loading
  flag, is left out.
\<close>

record 'b TokenListView =
  displayBalances :: "'b list"
  hasMore :: bool
  heading :: "nat option option"
  viewAllButton :: bool
  nothingFound :: bool

definition showCompact :: "bool \<Rightarrow> bool \<Rightarrow> bool" where
  "showCompact compact' fullList = (compact' \<and> \<not> fullList)"

definition TokenList :: "bool \<Rightarrow> bool \<Rightarrow> 'b list \<Rightarrow> 'b TokenListView" where
  "TokenList compact' fullList balances =
     (let sc = showCompact compact' fullList;
          shown = (if sc then take 3 balances else balances);
          more = (sc \<and> length balances > 1)
      in \<lparr> displayBalances = shown,
           hasMore = more,
           heading = (if \<not> fullList
                      then Some (if length balances \<noteq> 0 then Some (length balances) else None)
                      else None),
           viewAllButton = (sc \<and> more),
           nothingFound = (\<not> length shown > 0) \<rparr>)"

text \<open>
  The amount text of one row (token-list.tsx, lines 77-80):
  \<^verbatim>\<open>
  convertToRawAmount(tokenBalance.amount.toString(), tokenBalance.asset.decimals)
    .value.toString()
  \<close>
  The row reads \<open>tokenBalance.asset.iconUrl\<close> without optional chaining, so a missing
  asset is a TypeError; a failing conversion throws. The text shown is the decimal
  numeral of the resulting integer.
\<close>

definition displayedAmount :: "Balance \<Rightarrow> error + int" where
  "displayedAmount tokenBalance =
     (case asset tokenBalance of
        None \<Rightarrow> Inl TypeError
      | Some a \<Rightarrow> convertToRawAmount (Amount_toString (amount tokenBalance)) (decimals a))"

section \<open>The transfer form\<close>

subsection \<open>Field values and the validation schema\<close>

text \<open>
  A JavaScript number. Every finite double is a rational, and the schema only compares the
  amount against the integer bounds 1 and 100000, which is exact, so a finite number is
  represented by its rational value.
\<close>

datatype jsnumber = NaN | Finite rat | PosInfinity | NegInfinity

fun js_lt :: "jsnumber \<Rightarrow> rat \<Rightarrow> bool" where
  "js_lt NaN c = False"
| "js_lt (Finite q) c = (q < c)"
| "js_lt PosInfinity c = False"
| "js_lt NegInfinity c = True"

fun js_gt :: "jsnumber \<Rightarrow> rat \<Rightarrow> bool" where
  "js_gt NaN c = False"
| "js_gt (Finite q) c = (q > c)"
| "js_gt PosInfinity c = True"
| "js_gt NegInfinity c = False"

text \<open>
  The values the form collects: \<open>register('recipient')\<close> yields the text of the
  receiver input, \<open>register('amount', { valueAsNumber: true })\<close> a number (\<open>NaN\<close> for
  an empty input); the default value of \<open>amount\<close> is \<open>undefined\<close> (here \<open>None\<close>).
\<close>

record FormInput =
  recipientField :: string
  amountField :: "jsnumber option"

text \<open>\<open>TransferTokenValues = z.infer<typeof transferTokenSchema>\<close>: the parsed values.\<close>

record TransferTokenValues =
  recipient :: string
  amount :: jsnumber

text \<open>
  The field errors of the form state (\<open>errors.recipient?.message\<close>,
  \<open>errors.amount?.message\<close>): at most one message per field.
\<close>

record FieldErrors =
  recipientError :: "string option"
  amountError :: "string option"

text \<open>
  The schema (lines 22-36):
  \<^verbatim>\<open>
  const transferTokenSchema = z.object({
    recipient: z.string().min(1, { message: 'Recipient is required' }),
    amount: z.number({ message: 'Amount is required' })
      .min(1, { message: 'Amount should be greater than 0' })
      .max(100_000, { message: 'Max possible to transfer 100 000 tokens' }),
  });
  \<close>
  \<open>z.string().min(1)\<close> raises its issue when the length is below 1. \<open>z.number()\<close>
  rejects a value that is not a number, \<open>NaN\<close> included, with the type message and
  runs no further check; \<open>min(1)\<close> raises its issue when the value is below 1 and
  \<open>max(100000)\<close> when it is above 100000; an infinite value is a number for the
  type check and fails one of the two bounds. An object schema checks every field, so
  both fields can carry an error.
\<close>

definition parse_recipient :: "string \<Rightarrow> string + string" where
  "parse_recipient r = (if length r < 1 then Inl ''Recipient is required'' else Inr r)"

fun parse_amount :: "jsnumber option \<Rightarrow> string + jsnumber" where
  "parse_amount None = Inl ''Amount is required''"
| "parse_amount (Some NaN) = Inl ''Amount is required''"
| "parse_amount (Some n) =
     (if js_lt n 1 then Inl ''Amount should be greater than 0''
      else if js_gt n 100000 then Inl ''Max possible to transfer 100 000 tokens''
      else Inr n)"

fun issue :: "string + 'a \<Rightarrow> string option" where
  "issue (Inl m) = Some m"
| "issue (Inr v) = None"

definition transferTokenSchema :: "FormInput \<Rightarrow> FieldErrors + TransferTokenValues" where
  "transferTokenSchema i =
     (case (parse_recipient (recipientField i), parse_amount (amountField i)) of
        (Inr r, Inr a) \<Rightarrow> Inr \<lparr> recipient = r, amount = a \<rparr>
      | (pr, pa) \<Rightarrow> Inl \<lparr> recipientError = issue pr, amountError = issue pa \<rparr>)"

text \<open>
  The error kinds of local validation named by the specification. A validation error is
  attributed to a field: an error on the recipient field is \<open>InvalidRecipient\<close>, an error
  on the amount field is \<open>InvalidAmount\<close>. The schema has no field and no check for the
  balance, so no field error is ever classified as \<open>InsufficientBalance\<close>.
\<close>

definition errorKinds :: "FieldErrors \<Rightarrow> error list" where
  "errorKinds e =
     (if recipientError e = None then [] else [InvalidRecipient]) @
     (if amountError e = None then [] else [InvalidAmount])"

subsection \<open>Submission\<close>

text \<open>
  The collaborators the form calls, as events of a log, in call order.
  \<open>TransferTokens r a\<close> is the call \<open>transferTokens(values.recipient, values.amount)\<close>
  of the function returned by the hook \<open>useTransferTokens\<close>, which submits the transfer.
\<close>

type_synonym token = string

datatype event =
    TransferTokens string jsnumber
  | ShowTransferedSuccessModal token
  | ShowTransferedErrorModal string
  | RefreshBalance
  | RefreshHistory
  | OnBack

text \<open>
  Line 87: \<open>onSubmit={handleSubmit(values => transferTokens(values.recipient, values.amount))}\<close>.
  \<open>handleSubmit\<close> of react-hook-form runs the resolver (the schema) on the field values;
  when the resolver reports errors they become the form's errors and the callback is not
  called, otherwise the errors are cleared and the callback is called with the parsed
  values.
\<close>

definition onValid :: "TransferTokenValues \<Rightarrow> event list" where
  "onValid vs = [TransferTokens (recipient vs) (amount vs)]"

definition noErrors :: FieldErrors where
  "noErrors = \<lparr> recipientError = None, amountError = None \<rparr>"

definition handleSubmit :: "FormInput \<Rightarrow> FieldErrors \<times> event list" where
  "handleSubmit i =
     (case transferTokenSchema i of
        Inl errs \<Rightarrow> (errs, [])
      | Inr vs \<Rightarrow> (noErrors, onValid vs))"

text \<open>
  The success and error handlers given to \<open>useTransferTokens\<close> (lines 60-72):
  \<^verbatim>\<open>
  onSuccess: async token => {
    showTransferedSuccessModal(token);
    await Promise.all([refreshBalance(), refreshHistory()]);
    onBack();
  },
  onError: showTransferedErrorModal,
  \<close>
  The array elements are evaluated left to right, so \<open>refreshBalance()\<close> is called,
  then \<open>refreshHistory()\<close>, and only then the handler waits. \<open>Promise.all\<close> resolves
  when both promises resolve; when one rejects the \<open>await\<close> throws, and while one stays
  pending the handler stays suspended: in both cases \<open>onBack\<close> is not called. How each
  refresh settles is a parameter.
\<close>

datatype settle = Resolved | Rejected | Pending

definition onSuccess :: "token \<Rightarrow> settle \<Rightarrow> settle \<Rightarrow> event list" where
  "onSuccess tok rb rh =
     [ShowTransferedSuccessModal tok, RefreshBalance, RefreshHistory] @
     (if rb = Resolved \<and> rh = Resolved then [OnBack] else [])"

definition onError :: "string \<Rightarrow> event list" where
  "onError e = [ShowTransferedErrorModal e]"

text \<open>\<open>before a b log\<close>: event \<open>a\<close> occurs in the log, and no \<open>b\<close> occurs before its
  first occurrence.\<close>

fun before :: "event \<Rightarrow> event \<Rightarrow> event list \<Rightarrow> bool" where
  "before a b [] = False"
| "before a b (e # es) = (if e = a then True else if e = b then False else before a b es)"

text \<open>
  A submission is rejected with kind \<open>k\<close> when the resulting field errors include
  \<open>k\<close> and no collaborator has been called.
\<close>

definition rejectedWith :: "error \<Rightarrow> FieldErrors \<times> event list \<Rightarrow> bool" where
  "rejectedWith k out = (k \<in> set (errorKinds (fst out)) \<and> snd out = [])"

subsection \<open>Rendering\<close>

text \<open>The values of \<open>useTokenBalance()\<close>; the guard reads \<open>balances?.length\<close>, so
  \<open>balances\<close> may be \<open>undefined\<close> (here \<open>None\<close>).\<close>

record TokenBalanceState =
  balances :: "Balance list option"
  isLoading :: bool

text \<open>The state kept by \<open>useForm\<close>: field values, \<open>errors\<close> and \<open>isSubmitting\<close>.\<close>

record FormState =
  fieldValues :: FormInput
  errors :: FieldErrors
  isSubmitting :: bool

text \<open>
  What the form shows: the token input (\<open>symbol\<close>), \<open>currentBalance\<close> (used by the
  Max button and the balance text), the error flags and info texts of the two inputs, and
  the submit button (\<open>disabled={isSubmitting}\<close>, a loader instead of its label while
  submitting). The amount info is the error message or else the balance text, kept as
  its two ingredients.
\<close>

record TransferFormView =
  tokenInput :: string
  currentBalance :: jsnumber
  recipientInputError :: bool
  recipientInfo :: string
  amountInputError :: bool
  amountInfo :: "string + jsnumber \<times> string"
  submitDisabled :: bool
  submitLoader :: bool

datatype TransferFormOutput = Spinner | Form TransferFormView

text \<open>\<open>xs[0]\<close>: \<open>undefined\<close> (here \<open>None\<close>) on an empty array.\<close>

definition index0 :: "'a list \<Rightarrow> 'a option" where
  "index0 xs = (case xs of [] \<Rightarrow> None | x # _ \<Rightarrow> Some x)"

text \<open>
  Lines 74-83:
  \<^verbatim>\<open>
  if (isLoading || !balances?.length) { return (spinner); }
  const currentBalance = Number(balances[0].amount.toString());
  const symbol = balances[0].asset?.symbol?.toUpperCase() || 'TOKEN';
  \<close>
  \<open>Number(...)\<close> rounds the decimal text to a double and \<open>toUpperCase\<close> is
  locale-independent Unicode upper-casing; both are parameters (\<open>Number\<close>,
  \<open>toUpperCase\<close>). Reading \<open>[0]\<close> of \<open>undefined\<close>, or \<open>.amount\<close> of
  \<open>undefined\<close>, is a TypeError.
\<close>

definition TransferForm ::
  "(rat \<Rightarrow> jsnumber) \<Rightarrow> (string \<Rightarrow> string) \<Rightarrow> TokenBalanceState \<Rightarrow> FormState
     \<Rightarrow> error + TransferFormOutput" where
  "TransferForm Number toUpperCase st fs =
     (if isLoading st \<or> (case balances st of None \<Rightarrow> True | Some bs \<Rightarrow> length bs = 0)
      then Inr Spinner
      else case balances st of
        None \<Rightarrow> Inl TypeError
      | Some bs \<Rightarrow>
         (case index0 bs of
            None \<Rightarrow> Inl TypeError
          | Some b0 \<Rightarrow>
             (let cb = Number (Amount_toString (Balance.amount b0));
                  up = (case asset b0 of
                          None \<Rightarrow> None
                        | Some a \<Rightarrow> map_option toUpperCase (symbol a));
                  sym = (case up of
                           None \<Rightarrow> ''TOKEN''
                         | Some u \<Rightarrow> if u = [] then ''TOKEN'' else u)
              in Inr (Form
                   \<lparr> tokenInput = sym,
                     currentBalance = cb,
                     recipientInputError = (recipientError (errors fs) \<noteq> None),
                     recipientInfo =
                       (case recipientError (errors fs) of None \<Rightarrow> [] | Some m \<Rightarrow> m),
                     amountInputError = (amountError (errors fs) \<noteq> None),
                     amountInfo =
                       (case amountError (errors fs) of
                          None \<Rightarrow> Inr (cb, sym)
                        | Some m \<Rightarrow> Inl m),
                     submitDisabled = isSubmitting fs,
                     submitLoader = isSubmitting fs \<rparr>))))"

text \<open>The form's \<open>onSubmit\<close> handler exists only while the form itself is rendered.\<close>

definition TransferForm_onSubmit ::
  "(rat \<Rightarrow> jsnumber) \<Rightarrow> (string \<Rightarrow> string) \<Rightarrow> TokenBalanceState \<Rightarrow> FormState
     \<Rightarrow> (FieldErrors \<times> event list) option" where
  "TransferForm_onSubmit Number toUpperCase st fs =
     (case TransferForm Number toUpperCase st fs of
        Inr (Form v) \<Rightarrow> Some (handleSubmit (fieldValues fs))
      | _ \<Rightarrow> None)"

text \<open>The Max button: \<open>onClick={() => setValue('amount', currentBalance)}\<close>.\<close>

definition clickMax :: "TransferFormView \<Rightarrow> FormState \<Rightarrow> FormState" where
  "clickMax v fs = fs\<lparr> fieldValues := (fieldValues fs)\<lparr> amountField := Some (currentBalance v) \<rparr> \<rparr>"

subsection \<open>The form as a transition system\<close>

text \<open>
  One form instance over time. \<open>inFlight\<close> counts the calls of \<open>transferTokens\<close>
  that have started and not yet settled.

  The controls. The components \<open>Button\<close> and \<open>Input\<close> are not part of the sources;
  they are taken to render a \<open>button\<close> and an \<open>input\<close> element and to pass their
  props on, as the submit button's own \<open>type\<close> and \<open>disabled\<close> props presuppose.
  \<^item> The submit button (lines 139-141) has \<open>type="submit"\<close> and
    \<open>disabled={isSubmitting}\<close>: pressing it submits the form unless it is disabled.
  \<^item> The Max button (lines 105-112) is given an \<open>onClick\<close> but neither a \<open>type\<close> nor
    \<open>disabled\<close>. A button without a type inside a form is a submit button, so pressing
    it runs \<open>setValue('amount', currentBalance)\<close> and then submits the form, whether
    or not an attempt is in flight.
  \<^item> Pressing Enter in one of the two inputs submits the form implicitly, by a click on
    the form's default button, the first submit button in tree order. That is the Max
    button, which is never disabled.
  \<^item> Editing an input changes its field value. \<open>useForm\<close> is called without a mode, so
    validation runs on submit and, once a submission has completed
    (\<open>isSubmitted\<close>), the edited field is validated again on every change and its
    error replaced.

  \<open>handleSubmit\<close> sets \<open>isSubmitting\<close> when it starts; when the resolver reports
  errors it stores them and finishes at once, otherwise it clears the errors and waits for
  the promise of the callback. When it finishes it sets \<open>isSubmitted\<close> and clears
  \<open>isSubmitting\<close>, whether or not another call of \<open>handleSubmit\<close> is still
  waiting. The store can change at any time, and the form's controls exist only while the
  form is rendered.
\<close>

record World =
  store :: TokenBalanceState
  form :: FormState
  isSubmitted :: bool
  inFlight :: nat
  log :: "event list"

datatype action =
    ClickSubmit
  | ClickMax
  | PressEnter
  | EditRecipient string
  | EditAmount jsnumber
  | Settle
  | StoreChange TokenBalanceState

definition submitForm :: "World \<Rightarrow> World" where
  "submitForm w =
     (case handleSubmit (fieldValues (form w)) of
        (errs, evs) \<Rightarrow>
          if evs = []
          then w\<lparr> form := (form w)\<lparr> errors := errs, isSubmitting := False \<rparr>,
                  isSubmitted := True \<rparr>
          else w\<lparr> form := (form w)\<lparr> errors := errs, isSubmitting := True \<rparr>,
                  inFlight := inFlight w + 1,
                  log := log w @ evs \<rparr>)"

definition changeRecipient :: "string \<Rightarrow> World \<Rightarrow> World" where
  "changeRecipient r w =
     w\<lparr> form := (form w)
          \<lparr> fieldValues := (fieldValues (form w))\<lparr> recipientField := r \<rparr>,
            errors := (if isSubmitted w
                       then (errors (form w))\<lparr> recipientError := issue (parse_recipient r) \<rparr>
                       else errors (form w)) \<rparr> \<rparr>"

definition changeAmount :: "jsnumber \<Rightarrow> World \<Rightarrow> World" where
  "changeAmount n w =
     w\<lparr> form := (form w)
          \<lparr> fieldValues := (fieldValues (form w))\<lparr> amountField := Some n \<rparr>,
            errors := (if isSubmitted w
                       then (errors (form w))\<lparr> amountError := issue (parse_amount (Some n)) \<rparr>
                       else errors (form w)) \<rparr> \<rparr>"

fun step ::
  "(rat \<Rightarrow> jsnumber) \<Rightarrow> (string \<Rightarrow> string) \<Rightarrow> World \<Rightarrow> action \<Rightarrow> World option" where
  "step N U w ClickSubmit =
     (case TransferForm N U (store w) (form w) of
        Inr (Form v) \<Rightarrow> if submitDisabled v then None else Some (submitForm w)
      | _ \<Rightarrow> None)"
| "step N U w ClickMax =
     (case TransferForm N U (store w) (form w) of
        Inr (Form v) \<Rightarrow> Some (submitForm (w\<lparr> form := clickMax v (form w) \<rparr>))
      | _ \<Rightarrow> None)"
| "step N U w PressEnter =
     (case TransferForm N U (store w) (form w) of
        Inr (Form v) \<Rightarrow> Some (submitForm (w\<lparr> form := clickMax v (form w) \<rparr>))
      | _ \<Rightarrow> None)"
| "step N U w (EditRecipient r) =
     (case TransferForm N U (store w) (form w) of
        Inr (Form v) \<Rightarrow> Some (changeRecipient r w)
      | _ \<Rightarrow> None)"
| "step N U w (EditAmount n) =
     (case TransferForm N U (store w) (form w) of
        Inr (Form v) \<Rightarrow> Some (changeAmount n w)
      | _ \<Rightarrow> None)"
| "step N U w Settle =
     (if inFlight w > 0
      then Some (w\<lparr> form := (form w)\<lparr> isSubmitting := False \<rparr>,
                   isSubmitted := True,
                   inFlight := inFlight w - 1 \<rparr>)
      else None)"
| "step N U w (StoreChange st) = Some (w\<lparr> store := st \<rparr>)"

fun run ::
  "(rat \<Rightarrow> jsnumber) \<Rightarrow> (string \<Rightarrow> string) \<Rightarrow> World \<Rightarrow> action list \<Rightarrow> World option" where
  "run N U w [] = Some w"
| "run N U w (a # as) = (case step N U w a of None \<Rightarrow> None | Some w' \<Rightarrow> run N U w' as)"

text \<open>A freshly mounted form: empty receiver, \<open>amount: undefined\<close>, no errors, idle.\<close>

definition initialWorld :: "TokenBalanceState \<Rightarrow> World" where
  "initialWorld st =
     \<lparr> store = st,
       form = \<lparr> fieldValues = \<lparr> recipientField = [], amountField = None \<rparr>,
                errors = noErrors, isSubmitting = False \<rparr>,
       isSubmitted = False,
       inFlight = 0,
       log = [] \<rparr>"

text \<open>
  What matters of a state here: whether \<open>isSubmitting\<close> is set, how many attempts are
  in flight, and the collaborator calls made so far.
\<close>

definition attempts :: "World \<Rightarrow> bool \<times> nat \<times> event list" where
  "attempts w = (isSubmitting (form w), inFlight w, log w)"

subsection \<open>Example data\<close>

text \<open>
  The scenario of the specification: a balance of 500 units of an asset with 6 decimals
  (raw amount 500000000), a second asset, a loaded store holding the first balance, and a
  form filled in with a receiver and an amount.
\<close>

definition chr500 :: Balance where
  "chr500 = \<lparr> asset = Some \<lparr> symbol = Some ''CHR'', decimals = 6, iconUrl = [] \<rparr>,
              amount = \<lparr> rawAmount = 500000000, amount_decimals = 6 \<rparr> \<rparr>"

definition usd7 :: Balance where
  "usd7 = \<lparr> asset = Some \<lparr> symbol = Some ''USD'', decimals = 2, iconUrl = [] \<rparr>,
            amount = \<lparr> rawAmount = 700, amount_decimals = 2 \<rparr> \<rparr>"

definition loaded :: TokenBalanceState where
  "loaded = \<lparr> balances = Some [chr500], isLoading = False \<rparr>"

definition request :: "string \<Rightarrow> rat \<Rightarrow> FormState" where
  "request r q =
     \<lparr> fieldValues = \<lparr> recipientField = r, amountField = Some (Finite q) \<rparr>,
       errors = noErrors, isSubmitting = False \<rparr>"

section \<open>Properties of TokenList\<close>

lemma TokenList_compact:
  "TokenList True False bs =
     \<lparr> displayBalances = take 3 bs, hasMore = (length bs > 1),
       heading = Some (if length bs \<noteq> 0 then Some (length bs) else None),
       viewAllButton = (length bs > 1), nothingFound = (bs = []) \<rparr>"
  by (simp add: TokenList_def showCompact_def Let_def)

lemma TokenList_fullList:
  "TokenList compact' True bs =
     \<lparr> displayBalances = bs, hasMore = False, heading = None,
       viewAllButton = False, nothingFound = (bs = []) \<rparr>"
  by (simp add: TokenList_def showCompact_def Let_def)

text \<open>
  C6. In compact mode (\<open>compact\<close> set, \<open>fullList\<close> not set) the rows shown are the
  first \<open>min 3 (length balances)\<close> entries of the list, in the order of the list, and
  the truncation flag \<open>hasMore\<close> is set exactly when the list has more than one entry.
\<close>

theorem C6_compact_visible_and_truncated:
  "displayBalances (TokenList True False bs) = take (min 3 (length bs)) bs
   \<and> length (displayBalances (TokenList True False bs)) = min 3 (length bs)
   \<and> map (\<lambda>i. displayBalances (TokenList True False bs) ! i) [0 ..< min 3 (length bs)]
       = map (\<lambda>i. bs ! i) [0 ..< min 3 (length bs)]
   \<and> hasMore (TokenList True False bs) = (length bs > 1)"
  by (simp add: TokenList_compact min_def)

text \<open>
  C8. When both \<open>compact\<close> and \<open>fullList\<close> are set the full view wins: the rows shown
  are the whole list, unchanged, \<open>hasMore\<close> is false and no "View all" button is
  rendered.
\<close>

theorem C8_fullList_overrides_compact:
  "displayBalances (TokenList True True bs) = bs
   \<and> hasMore (TokenList True True bs) = False
   \<and> viewAllButton (TokenList True True bs) = False"
  by (simp add: TokenList_fullList)

text \<open>
  C5. For a two-element list \<open>[b1, b2]\<close> in compact mode the rows shown are
  \<open>[b1, b2]\<close>; the claim that the truncation flag is false does not hold, since the
  flag is set as soon as the list has more than one entry.
\<close>

theorem C5_two_balances_counterexample:
  "\<not> (displayBalances (TokenList True False [chr500, usd7]) = [chr500, usd7]
       \<and> hasMore (TokenList True False [chr500, usd7]) = False)"
  by (simp add: TokenList_compact)

text \<open>
  C5, as amended. For every two-element list \<open>[b1, b2]\<close> in compact mode the rows shown
  are \<open>[b1, b2]\<close> and the truncation flag \<open>hasMore\<close> is true.
\<close>

theorem C5_two_balances_truncated:
  "displayBalances (TokenList True False [b1, b2]) = [b1, b2]
   \<and> hasMore (TokenList True False [b1, b2]) = True"
  by (simp add: TokenList_compact)

section \<open>Properties of the amount shown in a row\<close>

lemma toRaw_toDecimal: "0 \<le> raw \<Longrightarrow> toRaw (toDecimal raw d) d = Inr raw"
  by (simp add: toRaw_def toDecimal_def Let_def not_less)

text \<open>
  The row converts the decimal rendering of the amount back to raw units, so for a
  well-formed balance (non-negative raw amount, scaled by the decimals of its asset) the
  number shown is the raw amount itself.
\<close>

lemma displayedAmount_is_rawAmount:
  assumes "asset b = Some a" and "amount_decimals (Balance.amount b) = decimals a"
    and "0 \<le> rawAmount (Balance.amount b)"
  shows "displayedAmount b = Inr (rawAmount (Balance.amount b))"
  using assms
  by (simp add: displayedAmount_def convertToRawAmount_def Amount_toString_def toRaw_toDecimal)

text \<open>
  C4. The claim is that the amount shown for a balance is \<open>rawAmount / 10^decimals\<close>.
  For the balance of 500 units with 6 decimals (raw amount 500000000) that value is 500,
  but the row shows 500000000.
\<close>

theorem C4_row_shows_raw_amount:
  "displayedAmount chr500 = Inr 500000000
   \<and> toDecimal (rawAmount (Balance.amount chr500)) 6 = 500"
  by (simp add: displayedAmount_def convertToRawAmount_def Amount_toString_def toRaw_def
      toDecimal_def chr500_def Let_def)

section \<open>Properties of validation and submission\<close>

lemma parse_amount_accepts:
  "(\<exists>n. parse_amount a = Inr n) =
   (\<exists>n. a = Some n \<and> n \<noteq> NaN \<and> \<not> js_lt n 1 \<and> \<not> js_gt n 100000)"
  by (cases a rule: parse_amount.cases) auto

lemma parse_amount_Finite:
  "parse_amount (Some (Finite q)) =
     (if q < 1 then Inl ''Amount should be greater than 0''
      else if q > 100000 then Inl ''Max possible to transfer 100 000 tokens''
      else Inr (Finite q))"
  by simp

lemma handleSubmit_zero_amount:
  "handleSubmit \<lparr> recipientField = r, amountField = Some (Finite 0) \<rparr>
     = (\<lparr> recipientError = issue (parse_recipient r),
          amountError = Some ''Amount should be greater than 0'' \<rparr>, [])"
  by (simp add: handleSubmit_def transferTokenSchema_def split: sum.splits)

lemma handleSubmit_valid:
  assumes "recipientField i \<noteq> []" and "amountField i = Some (Finite q)"
    and "1 \<le> q" and "q \<le> 100000"
  shows "handleSubmit i = (noErrors, [TransferTokens (recipientField i) (Finite q)])"
  using assms
  by (simp add: handleSubmit_def transferTokenSchema_def parse_recipient_def onValid_def)

lemma never_InsufficientBalance: "\<not> rejectedWith InsufficientBalance out"
  by (simp add: rejectedWith_def errorKinds_def)

text \<open>
  C3. The claim is that every amount with \<open>0 < amount \<le> 100000\<close> passes amount
  validation. The amount \<open>1/2\<close> lies in that range, yet the schema rejects it on the
  amount field, with the message that the amount should be greater than 0, and
  \<open>transferTokens\<close> is not called.
\<close>

theorem C3_amount_one_half_rejected:
  "handleSubmit \<lparr> recipientField = ''bob'', amountField = Some (Finite (1/2)) \<rparr>
     = (\<lparr> recipientError = None,
          amountError = Some ''Amount should be greater than 0'' \<rparr>, [])
   \<and> rejectedWith InvalidAmount
        (handleSubmit \<lparr> recipientField = ''bob'', amountField = Some (Finite (1/2)) \<rparr>)
   \<and> (0::rat) < 1/2 \<and> (1/2::rat) \<le> 100000"
  by (simp add: handleSubmit_def transferTokenSchema_def parse_recipient_def
      rejectedWith_def errorKinds_def)

text \<open>
  C7. For every request whose recipient is empty, submission is rejected with an error
  attributed to the recipient field (\<open>InvalidRecipient\<close>, message "Recipient is
  required"), and \<open>transferTokens\<close> is not called: the log of collaborator calls is
  empty.
\<close>

theorem C7_empty_recipient_rejected:
  assumes "recipientField i = []"
  shows "rejectedWith InvalidRecipient (handleSubmit i)
     \<and> recipientError (fst (handleSubmit i)) = Some ''Recipient is required''
     \<and> snd (handleSubmit i) = []"
  using assms
  by (simp add: handleSubmit_def transferTokenSchema_def parse_recipient_def
      rejectedWith_def errorKinds_def split: sum.splits)

theorem C7_empty_recipient_rejected_witness:
  "rejectedWith InvalidRecipient
     (handleSubmit \<lparr> recipientField = [], amountField = Some (Finite 5) \<rparr>)
   \<and> recipientError (fst (handleSubmit \<lparr> recipientField = [], amountField = Some (Finite 5) \<rparr>))
       = Some ''Recipient is required''
   \<and> snd (handleSubmit \<lparr> recipientField = [], amountField = Some (Finite 5) \<rparr>) = []"
  using C7_empty_recipient_rejected [of "\<lparr> recipientField = [], amountField = Some (Finite 5) \<rparr>"]
  by simp

text \<open>
  C2. The claim is that both refreshes are initiated before success is reported. In the
  success handler the report of success, the success modal, comes first: neither refresh
  has been initiated when it is shown.
\<close>

theorem C2_refresh_before_report_counterexample:
  "\<not> (before RefreshBalance (ShowTransferedSuccessModal ''0xabc'')
          (onSuccess ''0xabc'' Resolved Resolved)
       \<and> before RefreshHistory (ShowTransferedSuccessModal ''0xabc'')
          (onSuccess ''0xabc'' Resolved Resolved))"
  by (simp add: onSuccess_def)

text \<open>
  C2, as amended. On every successful submission the success handler shows the success
  modal first, then initiates the balance refresh and the history refresh, each exactly
  once and in that order, and both before \<open>onBack\<close>; \<open>onBack\<close> is called exactly when
  both refreshes have resolved.
\<close>

theorem C2_refreshes_after_modal_before_onBack:
  "before (ShowTransferedSuccessModal tok) RefreshBalance (onSuccess tok rb rh)
   \<and> before (ShowTransferedSuccessModal tok) RefreshHistory (onSuccess tok rb rh)
   \<and> before RefreshBalance RefreshHistory (onSuccess tok rb rh)
   \<and> before RefreshBalance OnBack (onSuccess tok rb rh)
   \<and> before RefreshHistory OnBack (onSuccess tok rb rh)
   \<and> count_list (onSuccess tok rb rh) RefreshBalance = 1
   \<and> count_list (onSuccess tok rb rh) RefreshHistory = 1
   \<and> (OnBack \<in> set (onSuccess tok rb rh)) = (rb = Resolved \<and> rh = Resolved)"
  by (simp add: onSuccess_def)

section \<open>Properties of the rendered form\<close>

lemma TransferForm_Spinner:
  "(TransferForm N U st fs = Inr Spinner) =
   (isLoading st \<or> balances st = None \<or> balances st = Some [])"
  by (auto simp: TransferForm_def index0_def Let_def split: option.splits list.splits)

lemma TransferForm_no_error: "TransferForm N U st fs \<noteq> Inl e"
  by (auto simp: TransferForm_def index0_def Let_def split: option.splits list.splits)

lemma TransferForm_Form:
  assumes "TransferForm N U st fs = Inr (Form v)"
  shows "\<exists>b bs. \<not> isLoading st \<and> balances st = Some (b # bs)
           \<and> currentBalance v = N (Amount_toString (Balance.amount b))
           \<and> submitDisabled v = isSubmitting fs"
  using assms
  by (auto simp: TransferForm_def index0_def Let_def
      split: option.splits list.splits if_splits)

lemma onSubmit_None:
  "(TransferForm_onSubmit N U st fs = None) =
   (isLoading st \<or> balances st = None \<or> balances st = Some [])"
  by (auto simp: TransferForm_onSubmit_def TransferForm_def index0_def Let_def
      split: option.splits list.splits)

lemma onSubmit_Form:
  "TransferForm N U st fs = Inr (Form v) \<Longrightarrow>
   TransferForm_onSubmit N U st fs = Some (handleSubmit (fieldValues fs))"
  by (simp add: TransferForm_onSubmit_def)

lemma TransferForm_loaded:
  "TransferForm Finite id loaded (request r q) =
     Inr (Form \<lparr> tokenInput = ''CHR'', currentBalance = Finite 500,
                 recipientInputError = False, recipientInfo = [],
                 amountInputError = False, amountInfo = Inr (Finite 500, ''CHR''),
                 submitDisabled = False, submitLoader = False \<rparr>)"
  by (simp add: TransferForm_def loaded_def chr500_def request_def index0_def Let_def
      Amount_toString_def toDecimal_def noErrors_def)

text \<open>
  C9. For every state of the balance store the form never fails with a TypeError; it
  renders the spinner, and offers no submit handler, exactly when the store is loading or
  the balance list is undefined or empty; and whenever the form itself is rendered the
  store is not loading, the balance list is non-empty, so that \<open>balances[0]\<close> is its
  first entry, and the current balance shown is read from that entry.
\<close>

theorem C9_balances0_read_only_behind_guard:
  "TransferForm N U st fs \<noteq> Inl TypeError
   \<and> (isLoading st \<or> balances st = None \<or> balances st = Some [])
       = (TransferForm N U st fs = Inr Spinner)
   \<and> (isLoading st \<or> balances st = None \<or> balances st = Some [])
       = (TransferForm_onSubmit N U st fs = None)
   \<and> (\<forall>v. TransferForm N U st fs = Inr (Form v) \<longrightarrow>
         (\<exists>b bs. \<not> isLoading st \<and> balances st = Some (b # bs)
            \<and> index0 (b # bs) = Some b
            \<and> currentBalance v = N (Amount_toString (Balance.amount b))))"
proof (intro conjI allI impI)
  show "TransferForm N U st fs \<noteq> Inl TypeError"
    by (rule TransferForm_no_error)
  show "(isLoading st \<or> balances st = None \<or> balances st = Some [])
       = (TransferForm N U st fs = Inr Spinner)"
    by (simp add: TransferForm_Spinner)
  show "(isLoading st \<or> balances st = None \<or> balances st = Some [])
       = (TransferForm_onSubmit N U st fs = None)"
    by (simp add: onSubmit_None)
next
  fix v
  assume "TransferForm N U st fs = Inr (Form v)"
  from TransferForm_Form [OF this]
  show "\<exists>b bs. \<not> isLoading st \<and> balances st = Some (b # bs)
            \<and> index0 (b # bs) = Some b
            \<and> currentBalance v = N (Amount_toString (Balance.amount b))"
    by (auto simp: index0_def)
qed

theorem C9_balances0_read_only_behind_guard_witness:
  "TransferForm Finite id loaded (request ''bob'' 100) =
     Inr (Form \<lparr> tokenInput = ''CHR'', currentBalance = Finite 500,
                 recipientInputError = False, recipientInfo = [],
                 amountInputError = False, amountInfo = Inr (Finite 500, ''CHR''),
                 submitDisabled = False, submitLoader = False \<rparr>)
   \<and> (\<exists>b bs. \<not> isLoading loaded \<and> balances loaded = Some (b # bs)
            \<and> index0 (b # bs) = Some b
            \<and> Finite 500 = Finite (Amount_toString (Balance.amount b)))"
  using C9_balances0_read_only_behind_guard [of Finite id loaded "request ''bob'' 100"]
  by (simp add: TransferForm_loaded)

section \<open>The missing balance check\<close>

text \<open>
  C1. The claim is that a request whose amount exceeds the current known balance is
  rejected with \<open>InsufficientBalance\<close> before the submitter is called. With a current
  balance of 500 and a requested amount of 600 the form reports no error and calls
  \<open>transferTokens\<close> with the amount 600.
\<close>

theorem C1_amount_above_balance_counterexample:
  "TransferForm Finite id loaded (request ''bob'' 600) =
     Inr (Form \<lparr> tokenInput = ''CHR'', currentBalance = Finite 500,
                 recipientInputError = False, recipientInfo = [],
                 amountInputError = False, amountInfo = Inr (Finite 500, ''CHR''),
                 submitDisabled = False, submitLoader = False \<rparr>)
   \<and> js_gt (Finite 600) 500
   \<and> TransferForm_onSubmit Finite id loaded (request ''bob'' 600)
       = Some (noErrors, [TransferTokens ''bob'' (Finite 600)])
   \<and> \<not> rejectedWith InsufficientBalance (noErrors, [TransferTokens ''bob'' (Finite 600)])"
proof -
  have "handleSubmit (fieldValues (request ''bob'' 600))
          = (noErrors, [TransferTokens ''bob'' (Finite 600)])"
    by (simp add: request_def handleSubmit_def transferTokenSchema_def parse_recipient_def
        onValid_def)
  then show ?thesis
    by (simp add: TransferForm_loaded onSubmit_Form never_InsufficientBalance)
qed

text \<open>
  C1, as amended. Local validation has no balance check: whenever the form is rendered,
  whatever balance it shows, a request with a non-empty recipient and an amount from 1 to
  100000 passes validation and \<open>transferTokens\<close> is called with that recipient and
  amount; the outcome is not a rejection with \<open>InsufficientBalance\<close>.
\<close>

theorem C1_submission_ignores_balance:
  assumes "TransferForm N U st fs = Inr (Form v)"
    and "recipientField (fieldValues fs) \<noteq> []"
    and "amountField (fieldValues fs) = Some (Finite q)"
    and "1 \<le> q" and "q \<le> 100000"
  shows "TransferForm_onSubmit N U st fs
           = Some (noErrors, [TransferTokens (recipientField (fieldValues fs)) (Finite q)])
         \<and> \<not> rejectedWith InsufficientBalance
               (noErrors, [TransferTokens (recipientField (fieldValues fs)) (Finite q)])"
  using assms by (simp add: onSubmit_Form handleSubmit_valid never_InsufficientBalance)

theorem C1_submission_ignores_balance_witness:
  "recipientField (fieldValues (request ''alice'' 1000)) \<noteq> []
   \<and> amountField (fieldValues (request ''alice'' 1000)) = Some (Finite 1000)
   \<and> (1::rat) \<le> 1000 \<and> (1000::rat) \<le> 100000
   \<and> js_gt (Finite 1000) 500
   \<and> TransferForm_onSubmit Finite id loaded (request ''alice'' 1000)
        = Some (noErrors, [TransferTokens ''alice'' (Finite 1000)])"
  using C1_submission_ignores_balance [OF TransferForm_loaded, of "''alice''" 1000 1000]
  by (simp add: request_def)

section \<open>Submissions in flight\<close>

text \<open>
  The submit button is disabled exactly while \<open>isSubmitting\<close> is set, and while it
  is disabled pressing it starts nothing.
\<close>

lemma submitDisabled_isSubmitting:
  "TransferForm N U st fs = Inr (Form v) \<Longrightarrow> submitDisabled v = isSubmitting fs"
  by (auto dest!: TransferForm_Form)

lemma ClickSubmit_blocked: "isSubmitting (form w) \<Longrightarrow> step N U w ClickSubmit = None"
  by (auto split: sum.splits TransferFormOutput.splits dest!: TransferForm_Form)

lemma run_first_submission:
  "run Finite id (initialWorld loaded)
     [EditRecipient ''bob'', EditAmount (Finite 100), ClickSubmit]
   = Some \<lparr> store = loaded,
            form = \<lparr> fieldValues =
                       \<lparr> recipientField = ''bob'', amountField = Some (Finite 100) \<rparr>,
                     errors = noErrors, isSubmitting = True \<rparr>,
            isSubmitted = False,
            inFlight = 1,
            log = [TransferTokens ''bob'' (Finite 100)] \<rparr>"
  by (simp add: initialWorld_def TransferForm_def loaded_def chr500_def index0_def Let_def
      changeRecipient_def changeAmount_def submitForm_def handleSubmit_def
      transferTokenSchema_def parse_recipient_def onValid_def noErrors_def)

lemma step_Max_in_flight:
  "step Finite id
     \<lparr> store = loaded,
       form = \<lparr> fieldValues =
                  \<lparr> recipientField = ''bob'', amountField = Some (Finite 100) \<rparr>,
                errors = noErrors, isSubmitting = True \<rparr>,
       isSubmitted = False,
       inFlight = 1,
       log = [TransferTokens ''bob'' (Finite 100)] \<rparr> ClickMax
   = Some \<lparr> store = loaded,
            form = \<lparr> fieldValues =
                       \<lparr> recipientField = ''bob'', amountField = Some (Finite 500) \<rparr>,
                     errors = noErrors, isSubmitting = True \<rparr>,
            isSubmitted = False,
            inFlight = 2,
            log = [TransferTokens ''bob'' (Finite 100), TransferTokens ''bob'' (Finite 500)] \<rparr>"
  by (simp add: TransferForm_def loaded_def chr500_def index0_def Let_def clickMax_def
      Amount_toString_def toDecimal_def submitForm_def handleSubmit_def
      transferTokenSchema_def parse_recipient_def onValid_def noErrors_def)

text \<open>
  C10. The claim is that no second submission can be started while an attempt is in
  flight. With the receiver "bob" and the amount 100 entered and submitted, one attempt is
  in flight and \<open>isSubmitting\<close> is set; the submit button is then disabled and
  pressing it does nothing, but pressing Max submits the form again: a second call of
  \<open>transferTokens\<close>, with the whole balance of 500, is started while the first has not
  settled.
\<close>

theorem C10_max_button_starts_second_submission:
  "map_option attempts
     (run Finite id (initialWorld loaded)
        [EditRecipient ''bob'', EditAmount (Finite 100), ClickSubmit])
     = Some (True, 1, [TransferTokens ''bob'' (Finite 100)])
   \<and> run Finite id (initialWorld loaded)
        [EditRecipient ''bob'', EditAmount (Finite 100), ClickSubmit, ClickSubmit] = None
   \<and> map_option attempts
       (run Finite id (initialWorld loaded)
          [EditRecipient ''bob'', EditAmount (Finite 100), ClickSubmit, ClickMax])
     = Some (True, 2, [TransferTokens ''bob'' (Finite 100), TransferTokens ''bob'' (Finite 500)])"
proof -
  let ?first = "[EditRecipient ''bob'', EditAmount (Finite 100), ClickSubmit]"
  have run_snoc: "run Finite id (initialWorld loaded) (?first @ [a]) =
      (case run Finite id (initialWorld loaded) ?first of
         None \<Rightarrow> None | Some w \<Rightarrow> step Finite id w a)" for a
    by (simp split: option.splits)
  have "map_option attempts (run Finite id (initialWorld loaded) ?first)
          = Some (True, 1, [TransferTokens ''bob'' (Finite 100)])"
    by (simp only: run_first_submission) (simp add: attempts_def)
  moreover have "run Finite id (initialWorld loaded) (?first @ [ClickSubmit]) = None"
    by (simp only: run_snoc run_first_submission option.case)
       (rule ClickSubmit_blocked, simp)
  moreover have "map_option attempts (run Finite id (initialWorld loaded) (?first @ [ClickMax]))
          = Some (True, 2,
               [TransferTokens ''bob'' (Finite 100), TransferTokens ''bob'' (Finite 500)])"
    by (simp only: run_snoc run_first_submission option.case step_Max_in_flight)
       (simp add: attempts_def)
  ultimately show ?thesis by simp
qed

end
